theory Spec2Isabelle
  imports Complex_Main
begin

section \<open>Messages, log lines and effects\<close>

text \<open>
  The repository holds two simulation scripts that share one vocabulary: \<^verbatim>\<open>a1.py\<close>
  (discovery followed by a TDMA schedule) and \<^verbatim>\<open>lab06.py\<close> (repeated discovery).
  Both build messages with \<^verbatim>\<open>wsp.PDU(phy, 20, src=.., dest=.., type=.., data=..)\<close>.
  A destination is either the string \<^verbatim>\<open>'broadcast'\<close> or a node id.  The payload
  differs between the two scripts, so the message record is polymorphic in it.

  Times and durations are Python floats in the source; they are modelled as exact
  rationals, so \<^verbatim>\<open>0.1\<close> is \<open>1/10\<close> and sums of durations do not round.
\<close>

datatype dest = Broadcast | Node int

record 'd pdu =
  pdu_type :: string
  src :: int
  dest :: dest
  data :: 'd

text \<open>
  An f-string is kept as the sequence of its parts: the literal pieces and the
  values interpolated between them.
\<close>

datatype part =
  S string
  | I int
  | L "int list"
  | P "(int \<times> int) list"
  | R rat

datatype py_error = TypeError | AttributeError

datatype callback = Cb_send_hello | Cb_send_data

text \<open>
  What a handler does besides updating its own fields: it logs a line, hands a
  message to the PHY layer, asks the engine to run a callback after a delay
  (\<^verbatim>\<open>sim.delayed_exec\<close>), or fails with an exception, which ends the handler.
\<close>

datatype 'd effect =
  Log "part list"
  | SendPdu "'d pdu"
  | DelayedExec rat callback
  | Raise py_error

text \<open>
  What a MAC layer does with a received message after logging it: call the node's
  own handler, call the handler of the default MAC layer it inherits from, or
  return without calling anything.
\<close>

datatype 'd mac_call =
  node_on_receive_pdu "'d pdu"
  | super_on_receive_pdu "'d pdu"
  | no_call

datatype decision = DeliverToProtocol | ForwardDefault | Drop

fun decision_of :: "'d mac_call \<Rightarrow> decision" where
  "decision_of (node_on_receive_pdu p) = DeliverToProtocol"
| "decision_of (super_on_receive_pdu p) = ForwardDefault"
| "decision_of no_call = Drop"

fun handed_on :: "'d mac_call \<Rightarrow> 'd pdu option" where
  "handed_on (node_on_receive_pdu p) = Some p"
| "handed_on (super_on_receive_pdu p) = Some p"
| "handed_on no_call = None"

text \<open>
  \<^verbatim>\<open>random.uniform(a, b)\<close> of the Python standard library is
  \<^verbatim>\<open>a + (b - a) * random()\<close>; the draw \<open>u\<close> of \<^verbatim>\<open>random()\<close>, a number
  in \<open>[0, 1)\<close>, is an argument of every handler that draws one.
\<close>

definition uniform :: "rat \<Rightarrow> rat \<Rightarrow> rat \<Rightarrow> rat" where
  "uniform a b u = a + (b - a) * u"

section \<open>a1.py: discovery and TDMA schedule\<close>

definition a1_NUM_DEVICES :: int where "a1_NUM_DEVICES = 10"
definition a1_DISCOVERY_DURATION :: rat where "a1_DISCOVERY_DURATION = 5"
definition a1_HELLO_TIMEOUT :: rat where "a1_HELLO_TIMEOUT = 1 / 100"
definition SLOT_DURATION :: rat where "SLOT_DURATION = 1 / 10"
definition SCHED_START_DELAY :: rat where "SCHED_START_DELAY = 1 / 2"
definition SIM_DURATION :: rat where "SIM_DURATION = 50"

text \<open>
  The payloads of \<^verbatim>\<open>a1.py\<close>: \<^verbatim>\<open>BS-HELLO\<close> is built without a \<^verbatim>\<open>data\<close>
  field, \<^verbatim>\<open>DEV-HELLO\<close> carries the sender's id, \<^verbatim>\<open>DATA\<close> an f-string, and
  \<^verbatim>\<open>SCHED\<close> a dictionary with the keys \<^verbatim>\<open>num_devices\<close>, \<^verbatim>\<open>dev_slots\<close>
  and \<^verbatim>\<open>start_delay\<close>.
\<close>

record sched_data =
  sched_num_devices :: int
  sched_dev_slots :: "(int \<times> int) list"
  sched_start_delay :: rat

datatype a1_payload =
  NoData
  | IdData int
  | TextData "part list"
  | SchedData sched_data

subsection \<open>CustomMacLayer\<close>

definition a1_CustomMacLayer_on_receive_pdu ::
    "int \<Rightarrow> 'd pdu \<Rightarrow> part list \<times> 'd mac_call" where
  "a1_CustomMacLayer_on_receive_pdu node_id p =
     ([S ''Received PDU from '', I (src p), S '': '', S (pdu_type p)],
      if pdu_type p = ''BS-HELLO'' \<and> dest p = Broadcast then node_on_receive_pdu p
      else if pdu_type p = ''DEV-HELLO'' \<and> node_id = 0 then node_on_receive_pdu p
      else if pdu_type p = ''SCHED'' \<and> dest p = Broadcast then node_on_receive_pdu p
      else if pdu_type p = ''DATA'' then
        (if node_id = 0 \<and> dest p = Node 0 then node_on_receive_pdu p
         else super_on_receive_pdu p)
      else no_call)"

subsection \<open>BaseStation\<close>

record base_station =
  bs_id :: int
  discovered_devices :: "int list"
  schedule :: "(int \<times> int) list"

definition BaseStation_init :: "int \<Rightarrow> base_station" where
  "BaseStation_init i = \<lparr>bs_id = i, discovered_devices = [], schedule = []\<rparr>"

text \<open>
  The loop of \<^verbatim>\<open>create_schedule\<close>: \<^verbatim>\<open>enumerate\<close> counts from the index given,
  and every pair is appended to the schedule held so far.
\<close>

fun create_schedule_loop :: "int \<Rightarrow> int list \<Rightarrow> (int \<times> int) list \<Rightarrow> (int \<times> int) list" where
  "create_schedule_loop idx [] sched = sched"
| "create_schedule_loop idx (device_id # rest) sched =
     create_schedule_loop (idx + 1) rest (sched @ [(device_id, idx)])"

definition create_schedule :: "base_station \<Rightarrow> base_station" where
  "create_schedule bs =
     bs\<lparr>schedule := create_schedule_loop 0 (discovered_devices bs) (schedule bs)\<rparr>"

definition a1_BaseStation_on_receive_pdu ::
    "base_station \<Rightarrow> 'd pdu \<Rightarrow> base_station \<times> 'd effect list" where
  "a1_BaseStation_on_receive_pdu bs p =
     (if pdu_type p = ''DEV-HELLO'' \<and> src p \<notin> set (discovered_devices bs) then
        (bs\<lparr>discovered_devices := discovered_devices bs @ [src p]\<rparr>,
         [Log [S ''Base Station '', I (bs_id bs), S '' received DEV-HELLO from Device '', I (src p)]])
      else if pdu_type p = ''DATA'' then
        (bs, [Log [S ''Base Station '', I (bs_id bs), S '' received DATA from Device '', I (src p)]])
      else (bs, []))"

subsection \<open>Device\<close>

record device =
  dev_id :: int
  slot_number :: "int option"
  schedule_frame_length :: "rat option"
  start_delay :: "rat option"

definition Device_init :: "int \<Rightarrow> device" where
  "Device_init i =
     \<lparr>dev_id = i, slot_number = None, schedule_frame_length = None, start_delay = None\<rparr>"

definition a1_send_hello :: "device \<Rightarrow> a1_payload effect list" where
  "a1_send_hello dev =
     [SendPdu \<lparr>pdu_type = ''DEV-HELLO'', src = dev_id dev, dest = Node 0, data = IdData (dev_id dev)\<rparr>,
      Log [S ''Device '', I (dev_id dev), S '' sent DEV-HELLO to Base Station.'']]"

text \<open>
  The search loop of \<^verbatim>\<open>process_schedule\<close>: the first pair whose device id is
  this device's id decides, and the loop returns there.
\<close>

fun find_slot :: "int \<Rightarrow> (int \<times> int) list \<Rightarrow> int option" where
  "find_slot i [] = None"
| "find_slot i ((d, slot_num) # rest) = (if d = i then Some slot_num else find_slot i rest)"

text \<open>
  \<^verbatim>\<open>pdu.data['start_delay']\<close> fails on a message without a \<^verbatim>\<open>data\<close> field
  (AttributeError) and on a payload that is a number or a string (TypeError), before
  any field of the device is written.
\<close>

definition process_schedule :: "device \<Rightarrow> a1_payload pdu \<Rightarrow> device \<times> a1_payload effect list" where
  "process_schedule dev p =
     (case data p of
        SchedData d \<Rightarrow>
          (let dev1 = dev\<lparr>start_delay := Some (sched_start_delay d)\<rparr>;
               num_devices = sched_num_devices d;
               dev2 = dev1\<lparr>schedule_frame_length := Some (of_int num_devices * SLOT_DURATION)\<rparr>
           in case find_slot (dev_id dev2) (sched_dev_slots d) of
                Some slot_num \<Rightarrow>
                  (dev2\<lparr>slot_number := Some slot_num\<rparr>,
                   [Log [S ''Device '', I (dev_id dev2), S '' received schedule. Slot number: '', I slot_num],
                    DelayedExec (sched_start_delay d + of_int slot_num * SLOT_DURATION) Cb_send_data])
              | None \<Rightarrow>
                  (dev2, [Log [S ''Device '', I (dev_id dev2), S '' didn't get a slot :('']]))
      | NoData \<Rightarrow> (dev, [Raise AttributeError])
      | IdData n \<Rightarrow> (dev, [Raise TypeError])
      | TextData t \<Rightarrow> (dev, [Raise TypeError]))"

text \<open>
  \<^verbatim>\<open>send_data\<close> runs at the engine's time \<open>now\<close>.  Adding the frame length of a
  device that never processed a schedule (\<^verbatim>\<open>None\<close>) is a TypeError, raised after
  the message has gone out.
\<close>

definition send_data :: "device \<Rightarrow> rat \<Rightarrow> a1_payload effect list" where
  "send_data dev now =
     (if now < SIM_DURATION then
        [SendPdu \<lparr>pdu_type = ''DATA'', src = dev_id dev, dest = Node 0,
                  data = TextData [S ''Data from '', I (dev_id dev)]\<rparr>,
         Log [S ''Device '', I (dev_id dev), S '' sent DATA to Base Station.'']] @
        (case schedule_frame_length dev of
           None \<Rightarrow> [Raise TypeError]
         | Some fl \<Rightarrow> if now + fl < SIM_DURATION then [DelayedExec fl Cb_send_data] else [])
      else [])"

definition a1_Device_on_receive_pdu ::
    "device \<Rightarrow> a1_payload pdu \<Rightarrow> rat \<Rightarrow> device \<times> a1_payload effect list" where
  "a1_Device_on_receive_pdu dev p u =
     (if pdu_type p = ''BS-HELLO'' then
        (dev, [Log [S ''Received PDU from '', I (src p), S '': '', S (pdu_type p)],
               DelayedExec (uniform 0 a1_HELLO_TIMEOUT u) Cb_send_hello])
      else if pdu_type p = ''SCHED'' then process_schedule dev p
      else (dev, []))"

subsection \<open>The engine's timers, for one device\<close>

text \<open>
  Modelled from the spec: the simulation engine (\<^verbatim>\<open>wsn_simpy\<close>) is a library
  outside the sources.  Its contract, as the specification's interface section
  gives it and as the handlers use it: \<^verbatim>\<open>delayed_exec(d, f)\<close> called at time
  \<open>now\<close> runs \<open>f\<close> once, at time \<open>now + d\<close>; pending callbacks run in increasing time
  order, and callbacks due at the same time run in the order in which they were
  armed.  The engine's own stop at \<^verbatim>\<open>until\<close> is left out, so that the only
  horizon is the one the handlers check themselves.
\<close>

fun armed :: "rat \<Rightarrow> 'd effect list \<Rightarrow> (rat \<times> callback) list" where
  "armed now [] = []"
| "armed now (DelayedExec d cb # es) = (now + d, cb) # armed now es"
| "armed now (e # es) = armed now es"

fun enqueue :: "rat \<times> callback \<Rightarrow> (rat \<times> callback) list \<Rightarrow> (rat \<times> callback) list" where
  "enqueue e [] = [e]"
| "enqueue e (e' # q) = (if fst e' \<le> fst e then e' # enqueue e q else e # e' # q)"

fun run_callback :: "device \<Rightarrow> callback \<Rightarrow> rat \<Rightarrow> a1_payload effect list" where
  "run_callback dev Cb_send_hello now = a1_send_hello dev"
| "run_callback dev Cb_send_data now = send_data dev now"

text \<open>
  \<open>fire_timers fuel dev q\<close> runs the pending callbacks of \<open>q\<close> and every callback
  they arm in turn, and returns what happened, each effect with its time.  Every
  callback run costs one unit of fuel; \<open>None\<close> means the fuel ran out with
  callbacks still pending.
\<close>

fun fire_timers ::
    "nat \<Rightarrow> device \<Rightarrow> (rat \<times> callback) list \<Rightarrow> (rat \<times> a1_payload effect) list option" where
  "fire_timers fuel dev [] = Some []"
| "fire_timers 0 dev (e # q) = None"
| "fire_timers (Suc fuel) dev ((now, cb) # q) =
     (let effs = run_callback dev cb now
      in map_option (\<lambda>rest. map (Pair now) effs @ rest)
           (fire_timers fuel dev (foldl (\<lambda>q' e. enqueue e q') q (armed now effs))))"

fun is_data :: "'d effect \<Rightarrow> bool" where
  "is_data (SendPdu p) = (pdu_type p = ''DATA'')"
| "is_data e = False"

definition data_times :: "(rat \<times> 'd effect) list \<Rightarrow> rat list" where
  "data_times tr = map fst (filter (\<lambda>te. is_data (snd te)) tr)"

text \<open>
  A device that processes the schedule message \<open>p\<close> at time \<open>t0\<close>, followed by
  everything its timers do afterwards.
\<close>

definition schedule_cycle ::
    "nat \<Rightarrow> device \<Rightarrow> a1_payload pdu \<Rightarrow> rat \<Rightarrow> (rat \<times> a1_payload effect) list option" where
  "schedule_cycle fuel dev p t0 =
     (let (dev', effs) = process_schedule dev p
      in fire_timers fuel dev' (armed t0 effs))"

subsection \<open>BaseStation.run\<close>

text \<open>
  A handler is folded over the messages that arrive while a process waits in a
  \<^verbatim>\<open>yield self.timeout(..)\<close>: handlers run to completion, one message after the
  other, and their effects are collected in order.
\<close>

fun receive_all :: "('s \<Rightarrow> 'm \<Rightarrow> 's \<times> 'e list) \<Rightarrow> 's \<Rightarrow> 'm list \<Rightarrow> 's \<times> 'e list" where
  "receive_all h s [] = (s, [])"
| "receive_all h s (m # ms) =
     (let (s1, e1) = h s m; (s2, e2) = receive_all h s1 ms in (s2, e1 @ e2))"

text \<open>A message reaches the base station through its MAC layer.\<close>

definition a1_BaseStation_receive ::
    "base_station \<Rightarrow> 'd pdu \<Rightarrow> base_station \<times> 'd effect list" where
  "a1_BaseStation_receive bs p =
     (let (line, call) = a1_CustomMacLayer_on_receive_pdu (bs_id bs) p
      in case call of
           node_on_receive_pdu q \<Rightarrow>
             (let (bs', effs) = a1_BaseStation_on_receive_pdu bs q in (bs', Log line # effs))
         | super_on_receive_pdu q \<Rightarrow> (bs, [Log line])
         | no_call \<Rightarrow> (bs, [Log line]))"

text \<open>
  \<^verbatim>\<open>BaseStation.run\<close> waits three times; \<open>rx0\<close>, \<open>rx1\<close> and \<open>rx2\<close> are the
  messages that arrive during the first wait, the discovery period and the final
  wait.
\<close>

definition a1_BaseStation_run ::
    "base_station \<Rightarrow> a1_payload pdu list \<Rightarrow> a1_payload pdu list \<Rightarrow> a1_payload pdu list \<Rightarrow>
     base_station \<times> a1_payload effect list" where
  "a1_BaseStation_run bs rx0 rx1 rx2 =
     (let (bs1, e1) = receive_all a1_BaseStation_receive bs rx0;
          hello_pdu = \<lparr>pdu_type = ''BS-HELLO'', src = bs_id bs1, dest = Broadcast, data = NoData\<rparr>;
          (bs2, e2) = receive_all a1_BaseStation_receive bs1 rx1;
          bs3 = create_schedule bs2;
          sched_pdu = \<lparr>pdu_type = ''SCHED'', src = bs_id bs3, dest = Broadcast,
                       data = SchedData \<lparr>sched_num_devices = int (length (schedule bs3)),
                                         sched_dev_slots = schedule bs3,
                                         sched_start_delay = SCHED_START_DELAY\<rparr>\<rparr>;
          (bs4, e4) = receive_all a1_BaseStation_receive bs3 rx2
      in (bs4,
          e1 @ [Log [S ''Discovery starts''],
                SendPdu hello_pdu,
                Log [S ''Base Station '', I (bs_id bs1), S '' broadcasted BS-HELLO.'']] @
          e2 @ [Log [S ''Base Station '', I (bs_id bs2),
                     S '' discovery period ended. Devices discovered: '', L (discovered_devices bs2)],
                SendPdu sched_pdu,
                Log [S ''Base Station '', I (bs_id bs3), S '' sent schedule: '', P (schedule bs3)]] @
          e4))"

section \<open>lab06.py: repeated discovery\<close>

definition lab06_NUM_DEVICES :: int where "lab06_NUM_DEVICES = 50"
definition lab06_DISCOVERY_DURATION :: rat where "lab06_DISCOVERY_DURATION = 5"
definition lab06_HELLO_TIMEOUT :: rat where "lab06_HELLO_TIMEOUT = 1 / 10"
definition RETRY_DISCOVERY_INTERVAL :: rat where "RETRY_DISCOVERY_INTERVAL = 5"

text \<open>
  The payloads of \<^verbatim>\<open>lab06.py\<close>: \<^verbatim>\<open>DISCOVERY\<close> carries the list of missing
  ids, \<^verbatim>\<open>HELLO\<close> the string \<^verbatim>\<open>"HELLO"\<close>.
\<close>

datatype lab06_payload = IdList "int list" | Text string

subsection \<open>CustomMacLayer\<close>

definition lab06_CustomMacLayer_on_receive_pdu ::
    "int \<Rightarrow> 'd pdu \<Rightarrow> part list \<times> 'd mac_call" where
  "lab06_CustomMacLayer_on_receive_pdu node_id p =
     ([S ''Custom MAC Layer received PDU: '', S (pdu_type p), S '' at '', I node_id],
      if pdu_type p \<in> set [''DISCOVERY'', ''HELLO''] then node_on_receive_pdu p
      else super_on_receive_pdu p)"

subsection \<open>CentralNode\<close>

record central_node =
  cn_id :: int
  discovered_ids :: "int list"
  missing_ids :: "int list"

definition CentralNode_init :: "int \<Rightarrow> central_node" where
  "CentralNode_init i =
     \<lparr>cn_id = i, discovered_ids = [], missing_ids = [1..lab06_NUM_DEVICES]\<rparr>"

definition CentralNode_on_receive_pdu ::
    "central_node \<Rightarrow> 'd pdu \<Rightarrow> central_node \<times> 'd effect list" where
  "CentralNode_on_receive_pdu c p =
     (if pdu_type p = ''HELLO'' \<and> src p \<notin> set (discovered_ids c) then
        (c\<lparr>discovered_ids := discovered_ids c @ [src p]\<rparr>,
         [Log [S ''Central Node '', I (cn_id c), S '' received HELLO from Node '', I (src p)]])
      else (c, []))"

definition CentralNode_receive ::
    "central_node \<Rightarrow> 'd pdu \<Rightarrow> central_node \<times> 'd effect list" where
  "CentralNode_receive c p =
     (let (line, call) = lab06_CustomMacLayer_on_receive_pdu (cn_id c) p
      in case call of
           node_on_receive_pdu q \<Rightarrow>
             (let (c', effs) = CentralNode_on_receive_pdu c q in (c', Log line # effs))
         | super_on_receive_pdu q \<Rightarrow> (c, [Log line])
         | no_call \<Rightarrow> (c, [Log line]))"

text \<open>
  One pass through the body of the \<^verbatim>\<open>while\<close> loop of \<^verbatim>\<open>CentralNode.run\<close>.
  The pair \<open>rx\<close> holds the messages that arrive during the wait before the
  broadcast and during the wait after it.
\<close>

definition CentralNode_round ::
    "central_node \<Rightarrow> lab06_payload pdu list \<times> lab06_payload pdu list \<Rightarrow>
     central_node \<times> lab06_payload effect list" where
  "CentralNode_round c rx =
     (let (c1, e1) = receive_all CentralNode_receive c (fst rx);
          p = \<lparr>pdu_type = ''DISCOVERY'', src = cn_id c1, dest = Broadcast,
               data = IdList (missing_ids c1)\<rparr>;
          (c2, e2) = receive_all CentralNode_receive c1 (snd rx);
          c3 = c2\<lparr>missing_ids :=
                    filter (\<lambda>i. i \<notin> set (discovered_ids c2)) [1..lab06_NUM_DEVICES]\<rparr>
      in (c3,
          e1 @ [Log [S ''Central Node '', I (cn_id c1), S '' starts discovery. Missing nodes: '',
                     L (missing_ids c1)],
                SendPdu p,
                Log [S ''Central Node '', I (cn_id c1), S '' sent DISCOVERY with missing nodes: '',
                     L (missing_ids c1)]] @
          e2 @ [if missing_ids c3 \<noteq> [] then
                  Log [S ''Central Node '', I (cn_id c3), S '' still missing responses from nodes: '',
                       L (missing_ids c3)]
                else
                  Log [S ''Central Node '', I (cn_id c3), S '' discovered all nodes: '',
                       L (discovered_ids c3)]]))"

text \<open>
  The \<^verbatim>\<open>while self.missing_ids\<close> loop.  The list \<open>rounds\<close> holds, for every pass
  the simulation has time for, the messages that arrive during it: its length is the
  budget the engine's horizon leaves to the loop, which has no bound of its own.
\<close>

fun CentralNode_run ::
    "central_node \<Rightarrow> (lab06_payload pdu list \<times> lab06_payload pdu list) list \<Rightarrow>
     central_node \<times> lab06_payload effect list" where
  "CentralNode_run c [] = (c, [])"
| "CentralNode_run c (rx # rounds) =
     (if missing_ids c \<noteq> [] then
        (let (c1, e1) = CentralNode_round c rx;
             (c2, e2) = CentralNode_run c1 rounds
         in (c2, e1 @ e2))
      else (c, []))"

subsection \<open>RegularNode\<close>

record regular_node =
  rn_id :: int
  received_discovery :: bool
  responded :: bool

definition RegularNode_init :: "int \<Rightarrow> regular_node" where
  "RegularNode_init i = \<lparr>rn_id = i, received_discovery = False, responded = False\<rparr>"

text \<open>
  \<^verbatim>\<open>not self.responded or self.id in pdu.data\<close>: the payload is looked at only
  when the node has responded before, and \<^verbatim>\<open>in\<close> with a number on the left and
  a string on the right is a TypeError.
\<close>

definition RegularNode_on_receive_pdu ::
    "regular_node \<Rightarrow> lab06_payload pdu \<times> rat \<Rightarrow> regular_node \<times> lab06_payload effect list" where
  "RegularNode_on_receive_pdu n pu =
     (let p = fst pu; u = snd pu in
      if pdu_type p = ''DISCOVERY'' then
        (let line = Log [S ''Regular Node '', I (rn_id n), S '' received DISCOVERY from Node '', I (src p)];
             random_delay = uniform 0 lab06_HELLO_TIMEOUT u;
             respond = (n\<lparr>responded := True\<rparr>,
                        [line,
                         Log [S ''Regular Node '', I (rn_id n), S '' scheduling HELLO in '',
                              R random_delay, S '' seconds''],
                         DelayedExec random_delay Cb_send_hello])
         in if \<not> responded n then respond
            else case data p of
                   IdList ids \<Rightarrow> if rn_id n \<in> set ids then respond else (n, [line])
                 | Text t \<Rightarrow> (n, [line, Raise TypeError]))
      else (n, []))"

definition lab06_send_hello :: "regular_node \<Rightarrow> lab06_payload effect list" where
  "lab06_send_hello n =
     [SendPdu \<lparr>pdu_type = ''HELLO'', src = rn_id n, dest = Node 0, data = Text ''HELLO''\<rparr>,
      Log [S ''Regular Node '', I (rn_id n), S '' sent HELLO to CentralNode (Node 0)'']]"

section \<open>Reading traces\<close>

text \<open>The messages handed to the PHY layer, in order.\<close>

fun sent :: "'d effect list \<Rightarrow> 'd pdu list" where
  "sent [] = []"
| "sent (SendPdu p # es) = p # sent es"
| "sent (e # es) = sent es"

text \<open>
  The states in which \<^verbatim>\<open>CentralNode.run\<close> would test its loop condition, one for
  every pass the budget allows, if no test ever ended the loop.
\<close>

fun round_states ::
    "central_node \<Rightarrow> (lab06_payload pdu list \<times> lab06_payload pdu list) list \<Rightarrow>
     central_node list" where
  "round_states c [] = []"
| "round_states c (rx # rounds) = c # round_states (fst (CentralNode_round c rx)) rounds"

section \<open>Properties of a1.py\<close>

subsection \<open>The schedule builder\<close>

text \<open>
  \<^verbatim>\<open>create_schedule\<close> appends to \<^verbatim>\<open>self.schedule\<close>, numbering the discovered
  devices from the index it starts at.
\<close>

lemma create_schedule_loop_eq:
  "create_schedule_loop idx ds sched =
     sched @ map (\<lambda>i. (ds ! i, idx + int i)) [0..<length ds]"
proof (induction ds arbitrary: idx sched)
  case Nil
  then show ?case by simp
next
  case (Cons d ds)
  have "map (\<lambda>i. ((d # ds) ! i, idx + int i)) [0..<length (d # ds)] =
        (d, idx) # map (\<lambda>i. (ds ! i, idx + 1 + int i)) [0..<length ds]"
    by (simp add: upt_conv_Cons map_Suc_upt [symmetric] del: upt_Suc)
  with Cons.IH [of "idx + 1" "sched @ [(d, idx)]"] show ?case by simp
qed


text \<open>
  Claim C2.  \<^verbatim>\<open>BaseStation.run\<close> calls \<^verbatim>\<open>create_schedule\<close> once, on the
  schedule that \<^verbatim>\<open>__init__\<close> left empty.  For every sequence of discovered ids the
  schedule it builds is then the list whose \<open>i\<close>-th entry is the \<open>i\<close>-th discovered
  id paired with \<open>i\<close>; the slot indices are pairwise distinct and are exactly the
  numbers from \<open>0\<close> up to, and without, the number of discovered ids.
\<close>

theorem c2_create_schedule:
  assumes "schedule bs = []"
  shows "schedule (create_schedule bs) =
           map (\<lambda>i. (discovered_devices bs ! i, int i)) [0..<length (discovered_devices bs)]
         \<and> distinct (map snd (schedule (create_schedule bs)))
         \<and> set (map snd (schedule (create_schedule bs))) = {0..<int (length (discovered_devices bs))}"
proof -
  let ?ds = "discovered_devices bs"
  have eq: "schedule (create_schedule bs) = map (\<lambda>i. (?ds ! i, int i)) [0..<length ?ds]"
    using assms by (simp add: create_schedule_def create_schedule_loop_eq)
  have snd_eq: "map snd (schedule (create_schedule bs)) = map int [0..<length ?ds]"
    by (simp add: eq comp_def)
  have d: "distinct (map int [0..<length ?ds])"
    by (simp add: distinct_map inj_on_def)
  have s: "set (map int [0..<length ?ds]) = {0..<int (length ?ds)}"
    by (simp add: image_int_atLeastLessThan)
  show ?thesis using eq d s unfolding snd_eq by simp
qed


theorem c2_create_schedule_witness:
  "schedule (BaseStation_init 0\<lparr>discovered_devices := [7, 3, 5]\<rparr>) = []
   \<and> schedule (create_schedule (BaseStation_init 0\<lparr>discovered_devices := [7, 3, 5]\<rparr>))
       = [(7, 0), (3, 1), (5, 2)]"
  using c2_create_schedule [of "BaseStation_init 0\<lparr>discovered_devices := [7, 3, 5]\<rparr>"]
  by (simp add: BaseStation_init_def upt_conv_Cons del: upt_Suc)


subsection \<open>MAC dispatch\<close>

text \<open>
  Claim C3.  The MAC layer of \<^verbatim>\<open>a1.py\<close> hands a broadcast \<^verbatim>\<open>BS-HELLO\<close> and a
  broadcast \<^verbatim>\<open>SCHED\<close> to the node's handler on every node; a \<^verbatim>\<open>DEV-HELLO\<close>
  exactly when the node is the base station (id \<open>0\<close>), and to nobody otherwise; a
  \<^verbatim>\<open>DATA\<close> message to the node's handler when the node is the base station and
  the destination is its id, and to the default MAC handler in every other case.
\<close>

theorem c3_mac_dispatch:
  "((pdu_type p = ''BS-HELLO'' \<or> pdu_type p = ''SCHED'') \<and> dest p = Broadcast \<longrightarrow>
      snd (a1_CustomMacLayer_on_receive_pdu n p) = node_on_receive_pdu p)
   \<and> (pdu_type p = ''DEV-HELLO'' \<longrightarrow>
      (snd (a1_CustomMacLayer_on_receive_pdu n p) = node_on_receive_pdu p) = (n = 0))
   \<and> (pdu_type p = ''DEV-HELLO'' \<and> n \<noteq> 0 \<longrightarrow>
      snd (a1_CustomMacLayer_on_receive_pdu n p) = no_call)
   \<and> (pdu_type p = ''DATA'' \<longrightarrow>
      snd (a1_CustomMacLayer_on_receive_pdu n p) =
        (if n = 0 \<and> dest p = Node n then node_on_receive_pdu p else super_on_receive_pdu p))"
  by (auto simp: a1_CustomMacLayer_on_receive_pdu_def)

theorem c3_mac_dispatch_witness:
  "snd (a1_CustomMacLayer_on_receive_pdu 4
          \<lparr>pdu_type = ''BS-HELLO'', src = 0, dest = Broadcast, data = NoData\<rparr>)
     = node_on_receive_pdu \<lparr>pdu_type = ''BS-HELLO'', src = 0, dest = Broadcast, data = NoData\<rparr>
   \<and> snd (a1_CustomMacLayer_on_receive_pdu 0
          \<lparr>pdu_type = ''DEV-HELLO'', src = 4, dest = Node 0, data = IdData 4\<rparr>)
     = node_on_receive_pdu \<lparr>pdu_type = ''DEV-HELLO'', src = 4, dest = Node 0, data = IdData 4\<rparr>
   \<and> snd (a1_CustomMacLayer_on_receive_pdu 7
          \<lparr>pdu_type = ''DEV-HELLO'', src = 4, dest = Node 0, data = IdData 4\<rparr>)
     = no_call
   \<and> snd (a1_CustomMacLayer_on_receive_pdu 0
          \<lparr>pdu_type = ''DATA'', src = 4, dest = Node 0, data = NoData\<rparr>)
     = node_on_receive_pdu \<lparr>pdu_type = ''DATA'', src = 4, dest = Node 0, data = NoData\<rparr>
   \<and> snd (a1_CustomMacLayer_on_receive_pdu 7
          \<lparr>pdu_type = ''DATA'', src = 4, dest = Node 0, data = NoData\<rparr>)
     = super_on_receive_pdu \<lparr>pdu_type = ''DATA'', src = 4, dest = Node 0, data = NoData\<rparr>"
  using
    c3_mac_dispatch [of "\<lparr>pdu_type = ''BS-HELLO'', src = 0, dest = Broadcast, data = NoData\<rparr>" 4]
    c3_mac_dispatch [of "\<lparr>pdu_type = ''DEV-HELLO'', src = 4, dest = Node 0, data = IdData 4\<rparr>" 0]
    c3_mac_dispatch [of "\<lparr>pdu_type = ''DEV-HELLO'', src = 4, dest = Node 0, data = IdData 4\<rparr>" 7]
    c3_mac_dispatch [of "\<lparr>pdu_type = ''DATA'', src = 4, dest = Node 0, data = NoData\<rparr>" 0]
    c3_mac_dispatch [of "\<lparr>pdu_type = ''DATA'', src = 4, dest = Node 0, data = NoData\<rparr>" 7]
  by simp

subsection \<open>The transmission chain of a scheduled device\<close>

lemma data_times_Nil [simp]: "data_times [] = []"
  by (simp add: data_times_def)

lemma data_times_Cons [simp]:
  "data_times ((t, e) # tr) = (if is_data e then t # data_times tr else data_times tr)"
  by (simp add: data_times_def)

lemma data_times_append [simp]: "data_times (tr @ tr') = data_times tr @ data_times tr'"
  by (simp add: data_times_def)







subsection \<open>Processing a schedule message\<close>

lemma find_slot_None_iff: "(find_slot i slots = None) = (i \<notin> fst ` set slots)"
  by (induction slots) (auto split: if_splits)


lemma process_schedule_absent:
  assumes "data p = SchedData d" "find_slot (dev_id dev) (sched_dev_slots d) = None"
  shows "process_schedule dev p =
           (dev\<lparr>start_delay := Some (sched_start_delay d),
                 schedule_frame_length := Some (of_int (sched_num_devices d) * SLOT_DURATION)\<rparr>,
            [Log [S ''Device '', I (dev_id dev), S '' didn't get a slot :('']])"
  using assms by (simp add: process_schedule_def)



text \<open>
  Claim C4.  A device that receives a schedule message whose slot assignments do
  not contain its id logs that it did not get a slot and does nothing else: the
  handler arms no timer, and whatever the fuel, the cycle that follows holds no
  event at all, so no \<open>DATA\<close> message is sent.
\<close>

theorem c4_no_slot_no_transmission:
  assumes "data p = SchedData d"
    and "dev_id dev \<notin> fst ` set (sched_dev_slots d)"
  shows "snd (process_schedule dev p) =
           [Log [S ''Device '', I (dev_id dev), S '' didn't get a slot :('']]
         \<and> armed t0 (snd (process_schedule dev p)) = []
         \<and> schedule_cycle fuel dev p t0 = Some []"
  using assms
  by (simp add: process_schedule_absent find_slot_None_iff schedule_cycle_def)

theorem c4_no_slot_no_transmission_witness:
  "dev_id (Device_init 4) \<notin> fst ` set [(5, 0), (2, 1), (9, 2)]
   \<and> snd (process_schedule (Device_init 4)
        \<lparr>pdu_type = ''SCHED'', src = 0, dest = Broadcast,
         data = SchedData \<lparr>sched_num_devices = 3, sched_dev_slots = [(5, 0), (2, 1), (9, 2)],
                            sched_start_delay = 1 / 2\<rparr>\<rparr>)
       = [Log [S ''Device '', I 4, S '' didn't get a slot :('']]
   \<and> schedule_cycle 7 (Device_init 4)
        \<lparr>pdu_type = ''SCHED'', src = 0, dest = Broadcast,
         data = SchedData \<lparr>sched_num_devices = 3, sched_dev_slots = [(5, 0), (2, 1), (9, 2)],
                            sched_start_delay = 1 / 2\<rparr>\<rparr> 10 = Some []"
  using c4_no_slot_no_transmission [of
      "\<lparr>pdu_type = ''SCHED'', src = 0, dest = Broadcast,
         data = SchedData \<lparr>sched_num_devices = 3, sched_dev_slots = [(5, 0), (2, 1), (9, 2)],
                            sched_start_delay = 1 / 2\<rparr>\<rparr>"
      "\<lparr>sched_num_devices = 3, sched_dev_slots = [(5, 0), (2, 1), (9, 2)],
                            sched_start_delay = 1 / 2\<rparr>"
      "Device_init 4" 10 7]
  by (simp add: Device_init_def)

text \<open>
  Claim C10.  When the schedule message does not list the device's id, the field
  \<open>slot_number\<close> keeps its value (\<open>None\<close> for a device that never had a slot) and no
  timer is armed, but \<open>start_delay\<close> and \<open>schedule_frame_length\<close> are overwritten
  from the message's \<open>start_delay\<close> and \<open>num_devices\<close>, which happens before the
  search.
\<close>

theorem c10_no_slot_frame:
  assumes "data p = SchedData d"
    and "dev_id dev \<notin> fst ` set (sched_dev_slots d)"
  shows "slot_number (fst (process_schedule dev p)) = slot_number dev
         \<and> start_delay (fst (process_schedule dev p)) = Some (sched_start_delay d)
         \<and> schedule_frame_length (fst (process_schedule dev p)) =
             Some (of_int (sched_num_devices d) * SLOT_DURATION)
         \<and> dev_id (fst (process_schedule dev p)) = dev_id dev
         \<and> armed t0 (snd (process_schedule dev p)) = []"
  using assms
  by (simp add: process_schedule_absent find_slot_None_iff)

theorem c10_no_slot_frame_witness:
  "dev_id (Device_init 4) \<notin> fst ` set [(5, 0), (2, 1), (9, 2)]
   \<and> slot_number (fst (process_schedule (Device_init 4)
        \<lparr>pdu_type = ''SCHED'', src = 0, dest = Broadcast,
         data = SchedData \<lparr>sched_num_devices = 3, sched_dev_slots = [(5, 0), (2, 1), (9, 2)],
                            sched_start_delay = 1 / 2\<rparr>\<rparr>)) = None
   \<and> start_delay (fst (process_schedule (Device_init 4)
        \<lparr>pdu_type = ''SCHED'', src = 0, dest = Broadcast,
         data = SchedData \<lparr>sched_num_devices = 3, sched_dev_slots = [(5, 0), (2, 1), (9, 2)],
                            sched_start_delay = 1 / 2\<rparr>\<rparr>)) = Some (1 / 2)
   \<and> schedule_frame_length (fst (process_schedule (Device_init 4)
        \<lparr>pdu_type = ''SCHED'', src = 0, dest = Broadcast,
         data = SchedData \<lparr>sched_num_devices = 3, sched_dev_slots = [(5, 0), (2, 1), (9, 2)],
                            sched_start_delay = 1 / 2\<rparr>\<rparr>)) = Some (3 / 10)"
  using c10_no_slot_frame [of
      "\<lparr>pdu_type = ''SCHED'', src = 0, dest = Broadcast,
         data = SchedData \<lparr>sched_num_devices = 3, sched_dev_slots = [(5, 0), (2, 1), (9, 2)],
                            sched_start_delay = 1 / 2\<rparr>\<rparr>"
      "\<lparr>sched_num_devices = 3, sched_dev_slots = [(5, 0), (2, 1), (9, 2)],
                            sched_start_delay = 1 / 2\<rparr>"
      "Device_init 4" 0]
  by (simp add: Device_init_def SLOT_DURATION_def)


section \<open>Properties of the two MAC layers\<close>

text \<open>
  Claim C9.  Both MAC layers decide from the message type, the destination and the
  receiving node's id alone.  Two messages that agree in type and destination get
  the same decision on the same node, whatever their payloads (the two messages may
  even carry payloads of different types) and sources.  The message handed on is
  the received message itself, payload included.  Every combination has a
  decision: a type that \<^verbatim>\<open>a1.py\<close> does not know is dropped, a type that
  \<^verbatim>\<open>lab06.py\<close> does not know goes to the default MAC handler.
\<close>

theorem c9_dispatch_total_deterministic:
  fixes p :: "'a pdu" and q :: "'b pdu"
  assumes "pdu_type p = pdu_type q" and "dest p = dest q"
  shows "decision_of (snd (a1_CustomMacLayer_on_receive_pdu n p)) =
           decision_of (snd (a1_CustomMacLayer_on_receive_pdu n q))
         \<and> decision_of (snd (lab06_CustomMacLayer_on_receive_pdu n p)) =
           decision_of (snd (lab06_CustomMacLayer_on_receive_pdu n q))
         \<and> handed_on (snd (a1_CustomMacLayer_on_receive_pdu n p)) \<in> {None, Some p}
         \<and> handed_on (snd (lab06_CustomMacLayer_on_receive_pdu n p)) = Some p
         \<and> (pdu_type p \<notin> {''BS-HELLO'', ''DEV-HELLO'', ''SCHED'', ''DATA''} \<longrightarrow>
              decision_of (snd (a1_CustomMacLayer_on_receive_pdu n p)) = Drop)
         \<and> (pdu_type p \<notin> {''DISCOVERY'', ''HELLO''} \<longrightarrow>
              decision_of (snd (lab06_CustomMacLayer_on_receive_pdu n p)) = ForwardDefault)"
  using assms
  by (simp add: a1_CustomMacLayer_on_receive_pdu_def lab06_CustomMacLayer_on_receive_pdu_def)

theorem c9_dispatch_total_deterministic_witness:
  "pdu_type \<lparr>pdu_type = ''DATA'', src = 4, dest = Node 0, data = TextData [S ''Data from '', I 4]\<rparr>
     = pdu_type \<lparr>pdu_type = ''DATA'', src = 9, dest = Node 0, data = IdList [1, 2]\<rparr>
   \<and> decision_of (snd (a1_CustomMacLayer_on_receive_pdu 0
        \<lparr>pdu_type = ''DATA'', src = 4, dest = Node 0, data = TextData [S ''Data from '', I 4]\<rparr>))
     = decision_of (snd (a1_CustomMacLayer_on_receive_pdu 0
        \<lparr>pdu_type = ''DATA'', src = 9, dest = Node 0, data = IdList [1, 2]\<rparr>))
   \<and> decision_of (snd (lab06_CustomMacLayer_on_receive_pdu 0
        \<lparr>pdu_type = ''DATA'', src = 4, dest = Node 0, data = TextData [S ''Data from '', I 4]\<rparr>))
     = ForwardDefault
   \<and> decision_of (snd (a1_CustomMacLayer_on_receive_pdu 3
        \<lparr>pdu_type = ''PING'', src = 4, dest = Node 3, data = NoData\<rparr>)) = Drop"
  using
    c9_dispatch_total_deterministic [of
      "\<lparr>pdu_type = ''DATA'', src = 4, dest = Node 0, data = TextData [S ''Data from '', I 4]\<rparr>"
      "\<lparr>pdu_type = ''DATA'', src = 9, dest = Node 0, data = IdList [1, 2]\<rparr>" 0]
    c9_dispatch_total_deterministic [of
      "\<lparr>pdu_type = ''PING'', src = 4, dest = Node 3, data = NoData\<rparr>"
      "\<lparr>pdu_type = ''PING'', src = 4, dest = Node 3, data = NoData\<rparr>" 3]
  by auto

section \<open>Properties of the discovery responses\<close>

lemma RegularNode_on_receive_pdu_state:
  "rn_id (fst (RegularNode_on_receive_pdu n pu)) = rn_id n"
  "responded (fst (RegularNode_on_receive_pdu n pu)) =
     (responded n \<or> pdu_type (fst pu) = ''DISCOVERY'')"
  by (auto simp: RegularNode_on_receive_pdu_def Let_def split: lab06_payload.splits)

lemma RegularNode_receive_all_state:
  "rn_id (fst (receive_all RegularNode_on_receive_pdu n hist)) = rn_id n"
  "responded (fst (receive_all RegularNode_on_receive_pdu n hist)) =
     (responded n \<or> (\<exists>q \<in> set hist. pdu_type (fst q) = ''DISCOVERY''))"
  by (induction hist arbitrary: n)
     (auto simp: split_def Let_def RegularNode_on_receive_pdu_state)

lemma sent_append [simp]: "sent (es @ es') = sent es @ sent es'"
  by (induction es rule: sent.induct) simp_all

lemma a1_BaseStation_receive_sent [simp]: "sent (snd (a1_BaseStation_receive bs p)) = []"
  by (simp add: a1_BaseStation_receive_def a1_BaseStation_on_receive_pdu_def
        a1_CustomMacLayer_on_receive_pdu_def)

lemma a1_BaseStation_receive_all_sent [simp]:
  "sent (snd (receive_all a1_BaseStation_receive bs ps)) = []"
  by (induction ps arbitrary: bs) (simp_all add: split_def Let_def)

lemma uniform_range:
  assumes "0 \<le> u" "u \<le> 1" "0 \<le> b"
  shows "0 \<le> uniform 0 b u \<and> uniform 0 b u \<le> b"
  using assms by (simp add: uniform_def mult_left_le)

text \<open>
  Claim C8.  A \<^verbatim>\<open>RegularNode\<close> of \<^verbatim>\<open>lab06.py\<close> that has handled the messages
  \<open>hist\<close> since its creation answers a discovery request with exactly one timer for
  \<^verbatim>\<open>send_hello\<close> if this is its first request (no \<^verbatim>\<open>DISCOVERY\<close> in \<open>hist\<close>) or the
  request lists its id, and with no timer otherwise.  The delay is
  \<^verbatim>\<open>random.uniform(0, HELLO_TIMEOUT)\<close>, which lies in \<open>[0, HELLO_TIMEOUT]\<close> for every
  draw in \<open>[0, 1]\<close>.  A \<^verbatim>\<open>Device\<close> of \<^verbatim>\<open>a1.py\<close> keeps no such flag: it answers
  every \<^verbatim>\<open>BS-HELLO\<close> with exactly one timer, and the base station broadcasts
  \<^verbatim>\<open>BS-HELLO\<close> exactly once, so that every request a device receives is its first.
\<close>

theorem c8_discovery_response:
  fixes hist :: "(lab06_payload pdu \<times> rat) list"
  shows "armed now (snd (RegularNode_on_receive_pdu
           (fst (receive_all RegularNode_on_receive_pdu (RegularNode_init i) hist))
           (\<lparr>pdu_type = ''DISCOVERY'', src = s, dest = dd, data = IdList ids\<rparr>, u))) =
           (if (\<forall>q \<in> set hist. pdu_type (fst q) \<noteq> ''DISCOVERY'') \<or> i \<in> set ids
            then [(now + uniform 0 lab06_HELLO_TIMEOUT u, Cb_send_hello)] else [])
         \<and> (0 \<le> u \<and> u \<le> 1 \<longrightarrow>
              0 \<le> uniform 0 lab06_HELLO_TIMEOUT u
              \<and> uniform 0 lab06_HELLO_TIMEOUT u \<le> lab06_HELLO_TIMEOUT
              \<and> 0 \<le> uniform 0 a1_HELLO_TIMEOUT u
              \<and> uniform 0 a1_HELLO_TIMEOUT u \<le> a1_HELLO_TIMEOUT)
         \<and> (pdu_type p = ''BS-HELLO'' \<longrightarrow>
              armed now (snd (a1_Device_on_receive_pdu dev p u)) =
                [(now + uniform 0 a1_HELLO_TIMEOUT u, Cb_send_hello)])
         \<and> length (filter (\<lambda>q. pdu_type q = ''BS-HELLO'')
              (sent (snd (a1_BaseStation_run bs rx0 rx1 rx2)))) = 1"
proof -
  let ?n = "fst (receive_all RegularNode_on_receive_pdu (RegularNode_init i) hist)"
  have st: "rn_id ?n = i"
    "responded ?n = (\<exists>q \<in> set hist. pdu_type (fst q) = ''DISCOVERY'')"
    by (simp_all add: RegularNode_receive_all_state RegularNode_init_def)
  have lab06: "armed now (snd (RegularNode_on_receive_pdu ?n
           (\<lparr>pdu_type = ''DISCOVERY'', src = s, dest = dd, data = IdList ids\<rparr>, u))) =
           (if (\<forall>q \<in> set hist. pdu_type (fst q) \<noteq> ''DISCOVERY'') \<or> i \<in> set ids
            then [(now + uniform 0 lab06_HELLO_TIMEOUT u, Cb_send_hello)] else [])"
    using st by (auto simp: RegularNode_on_receive_pdu_def Let_def)
  have jitter: "0 \<le> u \<and> u \<le> 1 \<longrightarrow>
              0 \<le> uniform 0 lab06_HELLO_TIMEOUT u
              \<and> uniform 0 lab06_HELLO_TIMEOUT u \<le> lab06_HELLO_TIMEOUT
              \<and> 0 \<le> uniform 0 a1_HELLO_TIMEOUT u
              \<and> uniform 0 a1_HELLO_TIMEOUT u \<le> a1_HELLO_TIMEOUT"
    using uniform_range [of u lab06_HELLO_TIMEOUT] uniform_range [of u a1_HELLO_TIMEOUT]
    by (simp add: lab06_HELLO_TIMEOUT_def a1_HELLO_TIMEOUT_def)
  have a1: "pdu_type p = ''BS-HELLO'' \<longrightarrow>
              armed now (snd (a1_Device_on_receive_pdu dev p u)) =
                [(now + uniform 0 a1_HELLO_TIMEOUT u, Cb_send_hello)]"
    by (simp add: a1_Device_on_receive_pdu_def)
  have once: "length (filter (\<lambda>q. pdu_type q = ''BS-HELLO'')
              (sent (snd (a1_BaseStation_run bs rx0 rx1 rx2)))) = 1"
    by (simp add: a1_BaseStation_run_def split_def Let_def)
  show ?thesis using lab06 jitter a1 once by blast
qed

theorem c8_discovery_response_witness:
  "armed 0 (snd (RegularNode_on_receive_pdu
      (fst (receive_all RegularNode_on_receive_pdu (RegularNode_init 2) []))
      (\<lparr>pdu_type = ''DISCOVERY'', src = 0, dest = Broadcast, data = IdList [5]\<rparr>, 1 / 2)))
     = [(1 / 20, Cb_send_hello)]
   \<and> armed 0 (snd (RegularNode_on_receive_pdu
      (fst (receive_all RegularNode_on_receive_pdu (RegularNode_init 2)
         [(\<lparr>pdu_type = ''DISCOVERY'', src = 0, dest = Broadcast, data = IdList [1, 2, 3]\<rparr>, 1 / 4)]))
      (\<lparr>pdu_type = ''DISCOVERY'', src = 0, dest = Broadcast, data = IdList [5]\<rparr>, 1 / 2)))
     = []
   \<and> armed 0 (snd (RegularNode_on_receive_pdu
      (fst (receive_all RegularNode_on_receive_pdu (RegularNode_init 2)
         [(\<lparr>pdu_type = ''DISCOVERY'', src = 0, dest = Broadcast, data = IdList [1, 2, 3]\<rparr>, 1 / 4)]))
      (\<lparr>pdu_type = ''DISCOVERY'', src = 0, dest = Broadcast, data = IdList [2, 5]\<rparr>, 1 / 2)))
     = [(1 / 20, Cb_send_hello)]
   \<and> (0::rat) \<le> 1 / 2 \<and> (1 / 2 :: rat) \<le> 1
   \<and> uniform 0 lab06_HELLO_TIMEOUT (1 / 2) \<le> lab06_HELLO_TIMEOUT
   \<and> armed 0 (snd (a1_Device_on_receive_pdu (Device_init 3)
        \<lparr>pdu_type = ''BS-HELLO'', src = 0, dest = Broadcast, data = NoData\<rparr> (1 / 2)))
     = [(1 / 200, Cb_send_hello)]"
  using
    c8_discovery_response [where hist = "[]" and i = 2 and ids = "[5]" and u = "1 / 2"
      and now = 0 and s = 0 and dd = Broadcast and dev = "Device_init 3"
      and p = "\<lparr>pdu_type = ''BS-HELLO'', src = 0, dest = Broadcast, data = NoData\<rparr>"]
    c8_discovery_response [where hist =
        "[(\<lparr>pdu_type = ''DISCOVERY'', src = 0, dest = Broadcast, data = IdList [1, 2, 3]\<rparr>, 1 / 4)]"
      and i = 2 and ids = "[5]" and u = "1 / 2" and now = 0 and s = 0 and dd = Broadcast]
    c8_discovery_response [where hist =
        "[(\<lparr>pdu_type = ''DISCOVERY'', src = 0, dest = Broadcast, data = IdList [1, 2, 3]\<rparr>, 1 / 4)]"
      and i = 2 and ids = "[2, 5]" and u = "1 / 2" and now = 0 and s = 0 and dd = Broadcast]
  by (simp add: uniform_def lab06_HELLO_TIMEOUT_def a1_HELLO_TIMEOUT_def)

section \<open>Properties of lab06.py\<close>

lemma CentralNode_on_receive_pdu_hello:
  assumes "pdu_type p = ''HELLO''"
  shows "fst (CentralNode_on_receive_pdu c p) =
           (if src p \<notin> set (discovered_ids c)
            then c\<lparr>discovered_ids := discovered_ids c @ [src p]\<rparr> else c)"
  using assms by (simp add: CentralNode_on_receive_pdu_def)

lemma CentralNode_receive_frame [simp]:
  "missing_ids (fst (CentralNode_receive c p)) = missing_ids c"
  "cn_id (fst (CentralNode_receive c p)) = cn_id c"
  "sent (snd (CentralNode_receive c p)) = []"
  by (simp_all add: CentralNode_receive_def CentralNode_on_receive_pdu_def
        lab06_CustomMacLayer_on_receive_pdu_def)

lemma CentralNode_receive_discovered:
  "set (discovered_ids (fst (CentralNode_receive c p))) =
     (if pdu_type p = ''HELLO'' then insert (src p) (set (discovered_ids c))
      else set (discovered_ids c))"
  by (auto simp: CentralNode_receive_def CentralNode_on_receive_pdu_def
        lab06_CustomMacLayer_on_receive_pdu_def)

lemma CentralNode_receive_all_frame [simp]:
  "missing_ids (fst (receive_all CentralNode_receive c ps)) = missing_ids c"
  "cn_id (fst (receive_all CentralNode_receive c ps)) = cn_id c"
  "sent (snd (receive_all CentralNode_receive c ps)) = []"
  by (induction ps arbitrary: c) (simp_all add: split_def Let_def)

lemma CentralNode_receive_all_discovered:
  "set (discovered_ids (fst (receive_all CentralNode_receive c ps))) =
     set (discovered_ids c) \<union> src ` {p \<in> set ps. pdu_type p = ''HELLO''}"
proof (induction ps arbitrary: c)
  case Nil
  then show ?case by simp
next
  case (Cons p ps)
  show ?case
    by (simp add: split_def Let_def Cons.IH CentralNode_receive_discovered) blast
qed

lemma CentralNode_round_discovered:
  "set (discovered_ids (fst (CentralNode_round c rx))) =
     set (discovered_ids c) \<union> src ` {p \<in> set (fst rx @ snd rx). pdu_type p = ''HELLO''}"
  by (simp add: CentralNode_round_def split_def Let_def CentralNode_receive_all_discovered) blast

lemma CentralNode_round_missing:
  "missing_ids (fst (CentralNode_round c rx)) =
     filter (\<lambda>i. i \<notin> set (discovered_ids (fst (CentralNode_round c rx)))) [1..lab06_NUM_DEVICES]"
  by (simp add: CentralNode_round_def split_def Let_def)

lemma CentralNode_round_sent:
  "sent (snd (CentralNode_round c rx)) =
     [\<lparr>pdu_type = ''DISCOVERY'', src = cn_id c, dest = Broadcast, data = IdList (missing_ids c)\<rparr>]"
  by (simp add: CentralNode_round_def split_def Let_def)

text \<open>
  Claim C5, as amended.  Handling a \<^verbatim>\<open>HELLO\<close> appends the sender to
  \<open>discovered_ids\<close> when it is not there yet, and leaves \<open>discovered_ids\<close> alone when
  it is.  In both cases the handler leaves \<open>missing_ids\<close> as it is: the sender
  leaves \<open>missing_ids\<close> only when the list is recomputed at the end of the
  collection window, after which every sender of a \<^verbatim>\<open>HELLO\<close> of the round is
  in \<open>discovered_ids\<close> and not in \<open>missing_ids\<close>.
\<close>

theorem c5_hello_bookkeeping:
  assumes "pdu_type p = ''HELLO''"
  shows "(src p \<notin> set (discovered_ids c) \<longrightarrow>
            discovered_ids (fst (CentralNode_on_receive_pdu c p)) = discovered_ids c @ [src p])
         \<and> (src p \<in> set (discovered_ids c) \<longrightarrow>
            discovered_ids (fst (CentralNode_on_receive_pdu c p)) = discovered_ids c)
         \<and> missing_ids (fst (CentralNode_on_receive_pdu c p)) = missing_ids c
         \<and> (p \<in> set (fst rx @ snd rx) \<longrightarrow>
            src p \<in> set (discovered_ids (fst (CentralNode_round c rx)))
            \<and> src p \<notin> set (missing_ids (fst (CentralNode_round c rx))))"
proof -
  have "p \<in> set (fst rx @ snd rx) \<longrightarrow> src p \<in> set (discovered_ids (fst (CentralNode_round c rx)))"
    using assms by (auto simp: CentralNode_round_discovered)
  moreover have "src p \<in> set (discovered_ids (fst (CentralNode_round c rx))) \<longrightarrow>
      src p \<notin> set (missing_ids (fst (CentralNode_round c rx)))"
    by (subst CentralNode_round_missing) simp
  ultimately show ?thesis
    using assms by (simp add: CentralNode_on_receive_pdu_hello)
qed

theorem c5_hello_bookkeeping_witness:
  "pdu_type \<lparr>pdu_type = ''HELLO'', src = 3, dest = Node 0, data = Text ''HELLO''\<rparr> = ''HELLO''
   \<and> discovered_ids (fst (CentralNode_on_receive_pdu (CentralNode_init 0)
         \<lparr>pdu_type = ''HELLO'', src = 3, dest = Node 0, data = Text ''HELLO''\<rparr>)) = [3]
   \<and> missing_ids (fst (CentralNode_on_receive_pdu (CentralNode_init 0)
         \<lparr>pdu_type = ''HELLO'', src = 3, dest = Node 0, data = Text ''HELLO''\<rparr>)) = missing_ids (CentralNode_init 0)
   \<and> 3 \<notin> set (missing_ids (fst (CentralNode_round (CentralNode_init 0)
         ([], [\<lparr>pdu_type = ''HELLO'', src = 3, dest = Node 0, data = Text ''HELLO''\<rparr>]))))
   \<and> discovered_ids (fst (CentralNode_on_receive_pdu
         (CentralNode_init 0\<lparr>discovered_ids := [7, 3]\<rparr>)
         \<lparr>pdu_type = ''HELLO'', src = 3, dest = Node 0, data = Text ''HELLO''\<rparr>)) = [7, 3]"
  using
    c5_hello_bookkeeping [of
      "\<lparr>pdu_type = ''HELLO'', src = 3, dest = Node 0, data = Text ''HELLO''\<rparr>"
      "CentralNode_init 0"
      "([], [\<lparr>pdu_type = ''HELLO'', src = 3, dest = Node 0, data = Text ''HELLO''\<rparr>])"]
    c5_hello_bookkeeping [of
      "\<lparr>pdu_type = ''HELLO'', src = 3, dest = Node 0, data = Text ''HELLO''\<rparr>"
      "CentralNode_init 0\<lparr>discovered_ids := [7, 3]\<rparr>"
      "([], [])"]
  by (simp add: CentralNode_init_def)

text \<open>
  The claim as first stated, that handling the response removes the sender from
  \<open>missing_ids\<close>, fails: after the fresh coordinator handles a \<^verbatim>\<open>HELLO\<close> from
  node 3, the id 3 is in both lists.
\<close>

theorem c5_hello_bookkeeping_counterexample:
  "\<not> (src \<lparr>pdu_type = ''HELLO'', src = 3, dest = Node 0, data = Text ''HELLO''\<rparr>
         \<notin> set (discovered_ids (CentralNode_init 0)) \<longrightarrow>
       src \<lparr>pdu_type = ''HELLO'', src = 3, dest = Node 0, data = Text ''HELLO''\<rparr>
         \<in> set (discovered_ids (fst (CentralNode_on_receive_pdu (CentralNode_init 0)
              \<lparr>pdu_type = ''HELLO'', src = 3, dest = Node 0, data = Text ''HELLO''\<rparr>)))
       \<and> src \<lparr>pdu_type = ''HELLO'', src = 3, dest = Node 0, data = Text ''HELLO''\<rparr>
         \<notin> set (missing_ids (fst (CentralNode_on_receive_pdu (CentralNode_init 0)
              \<lparr>pdu_type = ''HELLO'', src = 3, dest = Node 0, data = Text ''HELLO''\<rparr>))))"
  by (simp add: CentralNode_on_receive_pdu_def CentralNode_init_def lab06_NUM_DEVICES_def)

lemma CentralNode_round_inv:
  assumes "set (discovered_ids c) \<subseteq> {1..lab06_NUM_DEVICES}"
    and "\<forall>p \<in> set (fst rx @ snd rx). pdu_type p = ''HELLO'' \<longrightarrow> src p \<in> {1..lab06_NUM_DEVICES}"
  shows "set (discovered_ids (fst (CentralNode_round c rx))) \<inter>
           set (missing_ids (fst (CentralNode_round c rx))) = {}"
    and "set (discovered_ids (fst (CentralNode_round c rx))) \<union>
           set (missing_ids (fst (CentralNode_round c rx))) = {1..lab06_NUM_DEVICES}"
proof -
  let ?c = "fst (CentralNode_round c rx)"
  have sub: "set (discovered_ids ?c) \<subseteq> {1..lab06_NUM_DEVICES}"
    using assms unfolding CentralNode_round_discovered by auto
  have miss: "set (missing_ids ?c) = {1..lab06_NUM_DEVICES} - set (discovered_ids ?c)"
    by (subst CentralNode_round_missing) auto
  show "set (discovered_ids ?c) \<inter> set (missing_ids ?c) = {}"
    using miss by blast
  show "set (discovered_ids ?c) \<union> set (missing_ids ?c) = {1..lab06_NUM_DEVICES}"
    using miss sub by blast
qed

lemma CentralNode_run_inv:
  assumes "\<forall>rx \<in> set rounds. \<forall>p \<in> set (fst rx @ snd rx).
             pdu_type p = ''HELLO'' \<longrightarrow> src p \<in> {1..lab06_NUM_DEVICES}"
    and "set (discovered_ids c) \<inter> set (missing_ids c) = {}"
    and "set (discovered_ids c) \<union> set (missing_ids c) = {1..lab06_NUM_DEVICES}"
  shows "set (discovered_ids (fst (CentralNode_run c rounds))) \<inter>
           set (missing_ids (fst (CentralNode_run c rounds))) = {}
         \<and> set (discovered_ids (fst (CentralNode_run c rounds))) \<union>
           set (missing_ids (fst (CentralNode_run c rounds))) = {1..lab06_NUM_DEVICES}"
  using assms
proof (induction rounds arbitrary: c)
  case Nil
  then show ?case by simp
next
  case (Cons rx rounds)
  show ?case
  proof (cases "missing_ids c = []")
    case True
    then show ?thesis using Cons.prems by simp
  next
    case False
    have sub: "set (discovered_ids c) \<subseteq> {1..lab06_NUM_DEVICES}"
      using Cons.prems(3) by blast
    have rx: "\<forall>p \<in> set (fst rx @ snd rx). pdu_type p = ''HELLO'' \<longrightarrow> src p \<in> {1..lab06_NUM_DEVICES}"
      using Cons.prems(1) by simp
    have rest: "\<forall>rx \<in> set rounds. \<forall>p \<in> set (fst rx @ snd rx).
             pdu_type p = ''HELLO'' \<longrightarrow> src p \<in> {1..lab06_NUM_DEVICES}"
      using Cons.prems(1) by simp
    show ?thesis
      using False Cons.IH [OF rest CentralNode_round_inv [OF sub rx]]
      by (simp add: split_def Let_def)
  qed
qed

text \<open>
  Claim C6.  The senders of \<^verbatim>\<open>HELLO\<close> are the regular nodes, whose ids are
  \<open>1, \<dots>, NUM_DEVICES\<close>.  Then after every number \<open>k\<close> of completed passes of the
  coordinator's loop, \<open>discovered_ids\<close> and \<open>missing_ids\<close> are disjoint and together
  hold exactly the ids \<open>1, \<dots>, NUM_DEVICES\<close>.
\<close>

theorem c6_round_invariant:
  assumes "\<forall>rx \<in> set rounds. \<forall>p \<in> set (fst rx @ snd rx).
             pdu_type p = ''HELLO'' \<longrightarrow> src p \<in> {1..lab06_NUM_DEVICES}"
  shows "set (discovered_ids (fst (CentralNode_run (CentralNode_init i) (take k rounds)))) \<inter>
           set (missing_ids (fst (CentralNode_run (CentralNode_init i) (take k rounds)))) = {}
         \<and> set (discovered_ids (fst (CentralNode_run (CentralNode_init i) (take k rounds)))) \<union>
           set (missing_ids (fst (CentralNode_run (CentralNode_init i) (take k rounds))))
             = {1..lab06_NUM_DEVICES}"
proof -
  have "\<forall>rx \<in> set (take k rounds). \<forall>p \<in> set (fst rx @ snd rx).
          pdu_type p = ''HELLO'' \<longrightarrow> src p \<in> {1..lab06_NUM_DEVICES}"
    using assms by (meson in_set_takeD)
  then show ?thesis
    by (rule CentralNode_run_inv) (simp_all add: CentralNode_init_def)
qed

theorem c6_round_invariant_witness:
  "set (discovered_ids (fst (CentralNode_run (CentralNode_init 0)
     [([], [\<lparr>pdu_type = ''HELLO'', src = 3, dest = Node 0, data = Text ''HELLO''\<rparr>,
          \<lparr>pdu_type = ''HELLO'', src = 7, dest = Node 0, data = Text ''HELLO''\<rparr>])]))) \<inter>
   set (missing_ids (fst (CentralNode_run (CentralNode_init 0)
     [([], [\<lparr>pdu_type = ''HELLO'', src = 3, dest = Node 0, data = Text ''HELLO''\<rparr>,
          \<lparr>pdu_type = ''HELLO'', src = 7, dest = Node 0, data = Text ''HELLO''\<rparr>])]))) = {}
   \<and> set (discovered_ids (fst (CentralNode_run (CentralNode_init 0)
     [([], [\<lparr>pdu_type = ''HELLO'', src = 3, dest = Node 0, data = Text ''HELLO''\<rparr>,
          \<lparr>pdu_type = ''HELLO'', src = 7, dest = Node 0, data = Text ''HELLO''\<rparr>])]))) \<union>
     set (missing_ids (fst (CentralNode_run (CentralNode_init 0)
     [([], [\<lparr>pdu_type = ''HELLO'', src = 3, dest = Node 0, data = Text ''HELLO''\<rparr>,
          \<lparr>pdu_type = ''HELLO'', src = 7, dest = Node 0, data = Text ''HELLO''\<rparr>])]))) = {1..50}
   \<and> discovered_ids (fst (CentralNode_run (CentralNode_init 0)
     [([], [\<lparr>pdu_type = ''HELLO'', src = 3, dest = Node 0, data = Text ''HELLO''\<rparr>,
          \<lparr>pdu_type = ''HELLO'', src = 7, dest = Node 0, data = Text ''HELLO''\<rparr>])])) = [3, 7]"
proof -
  have "discovered_ids (fst (CentralNode_run (CentralNode_init 0)
     [([], [\<lparr>pdu_type = ''HELLO'', src = 3, dest = Node 0, data = Text ''HELLO''\<rparr>,
          \<lparr>pdu_type = ''HELLO'', src = 7, dest = Node 0, data = Text ''HELLO''\<rparr>])])) = [3, 7]"
    by code_simp
  with c6_round_invariant [of
     "[([], [\<lparr>pdu_type = ''HELLO'', src = 3, dest = Node 0, data = Text ''HELLO''\<rparr>,
          \<lparr>pdu_type = ''HELLO'', src = 7, dest = Node 0, data = Text ''HELLO''\<rparr>])]" 0 1]
  show ?thesis
    by (simp add: lab06_NUM_DEVICES_def)
qed

lemma CentralNode_run_sent:
  "sent (snd (CentralNode_run c rounds)) =
     map (\<lambda>s. \<lparr>pdu_type = ''DISCOVERY'', src = cn_id s, dest = Broadcast,
                data = IdList (missing_ids s)\<rparr>)
       (takeWhile (\<lambda>s. missing_ids s \<noteq> []) (round_states c rounds))"
  by (induction rounds arbitrary: c) (simp_all add: split_def Let_def CentralNode_round_sent)

lemma round_states_missing:
  assumes "missing_ids c = filter (\<lambda>i. i \<notin> set (discovered_ids c)) [1..lab06_NUM_DEVICES]"
  shows "\<forall>s \<in> set (round_states c rounds).
           missing_ids s = filter (\<lambda>i. i \<notin> set (discovered_ids s)) [1..lab06_NUM_DEVICES]"
  using assms
proof (induction rounds arbitrary: c)
  case Nil
  then show ?case by simp
next
  case (Cons rx rounds)
  from Cons.IH [OF CentralNode_round_missing] Cons.prems show ?case by simp
qed

lemma round_states_tl_missing:
  "\<forall>s \<in> set (tl (round_states c rounds)).
     missing_ids s = filter (\<lambda>i. i \<notin> set (discovered_ids s)) [1..lab06_NUM_DEVICES]"
proof (cases rounds)
  case Nil
  then show ?thesis by simp
next
  case (Cons rx rest)
  then show ?thesis
    using round_states_missing [OF CentralNode_round_missing] by simp
qed

lemma length_round_states [simp]: "length (round_states c rounds) = length rounds"
  by (induction rounds arbitrary: c) simp_all

lemma CentralNode_run_stops:
  "missing_ids (fst (CentralNode_run c rounds)) = []
   \<or> length (sent (snd (CentralNode_run c rounds))) = length rounds"
  by (induction rounds arbitrary: c) (simp_all add: split_def Let_def CentralNode_round_sent)

lemma CentralNode_run_done: "missing_ids c = [] \<Longrightarrow> CentralNode_run c rounds = (c, [])"
  by (cases rounds) simp_all

text \<open>
  Claim C7.  The discovery requests that \<^verbatim>\<open>CentralNode.run\<close> broadcasts are, in
  order, one for every state in which the loop condition is tested, up to the
  first state whose \<open>missing_ids\<close> is empty, each carrying the \<open>missing_ids\<close> of that
  state.  From the second pass on, that list is the one computed at the end of the
  pass before: the ids of \<open>1, \<dots>, NUM_DEVICES\<close> that are not discovered.  The loop
  ends with \<open>missing_ids\<close> empty or with the budget of passes used up; it does
  nothing once \<open>missing_ids\<close> is empty; and as long as \<open>missing_ids\<close> is never empty
  it uses every pass the budget allows, however many there are.
\<close>

theorem c7_retry_loop:
  "sent (snd (CentralNode_run c rounds)) =
     map (\<lambda>s. \<lparr>pdu_type = ''DISCOVERY'', src = cn_id s, dest = Broadcast,
                data = IdList (missing_ids s)\<rparr>)
       (takeWhile (\<lambda>s. missing_ids s \<noteq> []) (round_states c rounds))
   \<and> (\<forall>s \<in> set (tl (round_states c rounds)).
         missing_ids s = filter (\<lambda>i. i \<notin> set (discovered_ids s)) [1..lab06_NUM_DEVICES])
   \<and> (missing_ids (fst (CentralNode_run c rounds)) = []
       \<or> length (sent (snd (CentralNode_run c rounds))) = length rounds)
   \<and> (missing_ids c = [] \<longrightarrow> CentralNode_run c rounds = (c, []))
   \<and> ((\<forall>s \<in> set (round_states c rounds). missing_ids s \<noteq> []) \<longrightarrow>
         length (sent (snd (CentralNode_run c rounds))) = length rounds)"
proof -
  have "(\<forall>s \<in> set (round_states c rounds). missing_ids s \<noteq> []) \<longrightarrow>
         length (sent (snd (CentralNode_run c rounds))) = length rounds"
    by (simp add: CentralNode_run_sent takeWhile_eq_all_conv [THEN iffD2])
  then show ?thesis
    using CentralNode_run_sent [of c rounds] round_states_tl_missing [of c rounds]
      CentralNode_run_stops [of c rounds] CentralNode_run_done [of c rounds]
    by blast
qed

theorem c7_retry_loop_witness:
  "CentralNode_run (CentralNode_init 0\<lparr>missing_ids := []\<rparr>) [([], [])]
     = (CentralNode_init 0\<lparr>missing_ids := []\<rparr>, [])
   \<and> length (sent (snd (CentralNode_run (CentralNode_init 0)
     [([], [\<lparr>pdu_type = ''HELLO'', src = 3, dest = Node 0, data = Text ''HELLO''\<rparr>])]))) = 1
   \<and> sent (snd (CentralNode_run (CentralNode_init 0)
     [([], [\<lparr>pdu_type = ''HELLO'', src = 3, dest = Node 0, data = Text ''HELLO''\<rparr>]),
      ([], [])]))
       = [\<lparr>pdu_type = ''DISCOVERY'', src = 0, dest = Broadcast, data = IdList [1..50]\<rparr>,
          \<lparr>pdu_type = ''DISCOVERY'', src = 0, dest = Broadcast,
           data = IdList (filter (\<lambda>i. i \<noteq> 3) [1..50])\<rparr>]
   \<and> missing_ids (fst (CentralNode_round (CentralNode_init 0)
        ([], [\<lparr>pdu_type = ''HELLO'', src = 3, dest = Node 0, data = Text ''HELLO''\<rparr>])))
       = filter (\<lambda>i. i \<notin> set (discovered_ids (fst (CentralNode_round (CentralNode_init 0)
        ([], [\<lparr>pdu_type = ''HELLO'', src = 3, dest = Node 0, data = Text ''HELLO''\<rparr>])))))
           [1..50]"
proof -
  have r: "fst (CentralNode_round (CentralNode_init 0)
        ([], [\<lparr>pdu_type = ''HELLO'', src = 3, dest = Node 0, data = Text ''HELLO''\<rparr>])) =
      \<lparr>cn_id = 0, discovered_ids = [3], missing_ids = filter (\<lambda>i. i \<noteq> 3) [1..50]\<rparr>"
    by code_simp
  have ne: "filter (\<lambda>i. i \<noteq> 3) [1..50] \<noteq> ([] :: int list)"
    by code_simp
  have i: "missing_ids (CentralNode_init 0) = [1..50]" "cn_id (CentralNode_init 0) = 0"
    by (simp_all add: CentralNode_init_def lab06_NUM_DEVICES_def)
  note two = c7_retry_loop [of "CentralNode_init 0"
     "[([], [\<lparr>pdu_type = ''HELLO'', src = 3, dest = Node 0, data = Text ''HELLO''\<rparr>]),
      ([], [])]"]
  have "sent (snd (CentralNode_run (CentralNode_init 0)
     [([], [\<lparr>pdu_type = ''HELLO'', src = 3, dest = Node 0, data = Text ''HELLO''\<rparr>]),
      ([], [])]))
       = [\<lparr>pdu_type = ''DISCOVERY'', src = 0, dest = Broadcast, data = IdList [1..50]\<rparr>,
          \<lparr>pdu_type = ''DISCOVERY'', src = 0, dest = Broadcast,
           data = IdList (filter (\<lambda>i. i \<noteq> 3) [1..50])\<rparr>]"
    using two by (simp add: r ne i)
  moreover have "missing_ids (fst (CentralNode_round (CentralNode_init 0)
        ([], [\<lparr>pdu_type = ''HELLO'', src = 3, dest = Node 0, data = Text ''HELLO''\<rparr>])))
       = filter (\<lambda>i. i \<notin> set (discovered_ids (fst (CentralNode_round (CentralNode_init 0)
        ([], [\<lparr>pdu_type = ''HELLO'', src = 3, dest = Node 0, data = Text ''HELLO''\<rparr>])))))
           [1..50]"
    using two by (simp add: lab06_NUM_DEVICES_def)
  moreover have "length (sent (snd (CentralNode_run (CentralNode_init 0)
     [([], [\<lparr>pdu_type = ''HELLO'', src = 3, dest = Node 0, data = Text ''HELLO''\<rparr>])]))) = 1"
    using c7_retry_loop [of "CentralNode_init 0"
     "[([], [\<lparr>pdu_type = ''HELLO'', src = 3, dest = Node 0, data = Text ''HELLO''\<rparr>])]"]
    by (simp add: i)
  moreover have "CentralNode_run (CentralNode_init 0\<lparr>missing_ids := []\<rparr>) [([], [])]
     = (CentralNode_init 0\<lparr>missing_ids := []\<rparr>, [])"
    using c7_retry_loop [of "CentralNode_init 0\<lparr>missing_ids := []\<rparr>" "[([], [])]"]
    by simp
  ultimately show ?thesis by simp
qed

end
